theory Spec2Isabelle
  imports Main
begin

section \<open>Python values, dictionaries and the log\<close>

text \<open>
  Configuration values, node attributes and tag attributes are dynamically typed in the
  source. The values that occur are \<open>None\<close>, booleans, integers, strings and lists.
\<close>

datatype pyval = PyNone | PyBool bool | PyInt int | PyStr string | PyList "pyval list"

text \<open>Python's truth value of an object, as \<open>if\<close>, \<open>and\<close>, \<open>or\<close> and \<open>not\<close> test it.\<close>

fun truthy :: "pyval \<Rightarrow> bool" where
  "truthy PyNone = False"
| "truthy (PyBool b) = b"
| "truthy (PyInt i) = (i \<noteq> 0)"
| "truthy (PyStr s) = (s \<noteq> [])"
| "truthy (PyList xs) = (xs \<noteq> [])"

text \<open>\<open>a and b\<close> evaluates to \<open>a\<close> when \<open>a\<close> is false and to \<open>b\<close> otherwise.\<close>

definition py_and :: "pyval \<Rightarrow> pyval \<Rightarrow> pyval" where
  "py_and a b = (if truthy a then b else a)"

text \<open>
  A \<open>dict\<close> with string keys, in insertion order. \<open>d[k] = v\<close> replaces the value of an
  existing key in place and appends a new key; \<open>d.update(other)\<close> stores every item of
  \<open>other\<close> in turn.
\<close>

type_synonym dict = "(string \<times> pyval) list"

primrec dict_setitem :: "string \<Rightarrow> pyval \<Rightarrow> dict \<Rightarrow> dict" where
  "dict_setitem k v [] = [(k, v)]"
| "dict_setitem k v (p # ps) = (if fst p = k then (k, v) # ps else p # dict_setitem k v ps)"

definition dict_update :: "dict \<Rightarrow> dict \<Rightarrow> dict" where
  "dict_update d other = fold (\<lambda>(k, v). dict_setitem k v) other d"

definition dict_get :: "dict \<Rightarrow> string \<Rightarrow> pyval option" where
  "dict_get d k = map_of d k"

definition dict_keys :: "dict \<Rightarrow> string list" where
  "dict_keys d = map fst d"

text \<open>
  The logger: every call appends one record, made of the level, the message template and
  the arguments that \<open>%s\<close> would format.
\<close>

datatype level = INFO | WARNING

datatype log_arg = ArgStr string | ArgDict dict

datatype log_record = LogRecord level string "log_arg list"

type_synonym log = "log_record list"

definition logger_warning :: "string \<Rightarrow> log_arg list \<Rightarrow> log \<Rightarrow> log" where
  "logger_warning msg args lg = lg @ [LogRecord WARNING msg args]"

definition logger_info :: "string \<Rightarrow> log_arg list \<Rightarrow> log \<Rightarrow> log" where
  "logger_info msg args lg = lg @ [LogRecord INFO msg args]"

fun is_warning :: "log_record \<Rightarrow> bool" where
  "is_warning (LogRecord l _ _) = (l = WARNING)"

datatype error = AttributeError

section \<open>Configuration, environment and nodes\<close>

text \<open>The three options that the resolution step reads from \<open>env.config\<close>.\<close>

record config =
  hoverxref_project :: pyval
  hoverxref_version :: pyval
  hoverxref_auto_ref :: pyval

record env =
  config :: config

text \<open>
  A docutils node, as far as the extension touches it: the list attributes \<open>ids\<close> and
  \<open>classes\<close> (present on every element), the link to the parent (an address in the
  document tree, \<open>None\<close> for a node without parent) and the extra Python attribute
  \<open>_hoverxref\<close>, which exists only after injection (\<open>None\<close>: \<open>hasattr\<close> is false).
\<close>

record node =
  ids :: "string list"
  classes :: "string list"
  parent :: "nat option"
  hoverxref :: "dict option"

type_synonym doctree = "nat \<Rightarrow> node"

definition getattr_hoverxref :: "node \<Rightarrow> error + dict" where
  "getattr_hoverxref n = (case hoverxref n of None \<Rightarrow> Inl AttributeError | Some d \<Rightarrow> Inr d)"

section \<open>HoverXRefStandardDomain\<close>

definition is_hoverxref_configured :: "env \<Rightarrow> pyval" where
  "is_hoverxref_configured e =
     (let project = hoverxref_project (config e);
          version = hoverxref_version (config e)
      in py_and project version)"

text \<open>
  \<open>replace_attr('classes', ['hoverxref'])\<close> rebinds the attribute to the new list; the
  dictionary is then stored on the node.
\<close>

definition inject_hoverxref_data :: "env \<Rightarrow> node \<Rightarrow> pyval \<Rightarrow> pyval \<Rightarrow> node" where
  "inject_hoverxref_data e refnode docname labelid =
     (let refnode1 = refnode\<lparr>classes := [''hoverxref'']\<rparr>;
          project = hoverxref_project (config e);
          version = hoverxref_version (config e)
      in refnode1\<lparr>hoverxref := Some
           [(''data-project'', project),
            (''data-version'', version),
            (''data-doc'', docname),
            (''data-section'', labelid)]\<rparr>)"

text \<open>
  The resolvers of the host's standard domain (\<open>super()._resolve_ref_xref\<close>,
  \<open>super()._resolve_obj_xref\<close>, \<open>super().resolve_xref\<close>) are parameters: they return
  the resolved reference node, or \<open>None\<close> for an unresolved reference. The helpers
  \<open>get_ref_xref_data\<close> and \<open>get_ref_obj_data\<close> (module \<open>utils\<close>) and the table
  \<open>registry.object_types\<close> (module \<open>registry\<close>) are parameters as well. The domain object \<open>self\<close> that the helpers receive is
  fixed inside the parameter. The pending node and the content node have an arbitrary
  type \<open>'n\<close>, the builder an arbitrary type \<open>'b\<close>.

  Each resolver takes the log and returns it with the records it appended.
\<close>

definition resolve_ref_xref ::
  "(env \<Rightarrow> string \<Rightarrow> 'b \<Rightarrow> string \<Rightarrow> string \<Rightarrow> 'n \<Rightarrow> 'n \<Rightarrow> node option) \<Rightarrow>
   ('n \<Rightarrow> string \<Rightarrow> pyval \<times> pyval \<times> pyval) \<Rightarrow>
   env \<Rightarrow> string \<Rightarrow> 'b \<Rightarrow> string \<Rightarrow> string \<Rightarrow> 'n \<Rightarrow> 'n \<Rightarrow> log \<Rightarrow>
   error + (node option \<times> log)" where
  "resolve_ref_xref super_resolve_ref_xref get_ref_xref_data
       e fromdocname builder typ target nd contnode lg =
     (case super_resolve_ref_xref e fromdocname builder typ target nd contnode of
        None \<Rightarrow> Inr (None, lg)
      | Some refnode \<Rightarrow>
          (let lg1 = (if \<not> truthy (is_hoverxref_configured e) \<and> typ = ''hoverxref''
                      then logger_warning ''hoverxref role is not fully configured.'' [] lg
                      else lg)
           in if truthy (is_hoverxref_configured e) \<and>
                 (truthy (hoverxref_auto_ref (config e)) \<or> typ = ''hoverxref'')
              then (case get_ref_xref_data nd target of
                      (docname, labelid, _) \<Rightarrow>
                        (let refnode1 = inject_hoverxref_data e refnode docname labelid
                         in case getattr_hoverxref refnode1 of
                              Inl err \<Rightarrow> Inl err
                            | Inr h \<Rightarrow>
                                Inr (Some refnode1,
                                     logger_info '':ref: _hoverxref injected: fromdocname=%s %s''
                                       [ArgStr fromdocname, ArgDict h] lg1)))
              else Inr (Some refnode, lg1)))"

definition resolve_obj_xref ::
  "(env \<Rightarrow> string \<Rightarrow> 'b \<Rightarrow> string \<Rightarrow> string \<Rightarrow> 'n \<Rightarrow> 'n \<Rightarrow> node option) \<Rightarrow>
   ('n \<Rightarrow> string \<Rightarrow> string \<Rightarrow> pyval \<times> pyval) \<Rightarrow> string list \<Rightarrow>
   env \<Rightarrow> string \<Rightarrow> 'b \<Rightarrow> string \<Rightarrow> string \<Rightarrow> 'n \<Rightarrow> 'n \<Rightarrow> log \<Rightarrow>
   error + (node option \<times> log)" where
  "resolve_obj_xref super_resolve_obj_xref get_ref_obj_data object_types
       e fromdocname builder typ target nd contnode lg =
     (case super_resolve_obj_xref e fromdocname builder typ target nd contnode of
        None \<Rightarrow> Inr (None, lg)
      | Some refnode \<Rightarrow>
          if typ \<in> set object_types
          then (case get_ref_obj_data nd typ target of
                  (docname, labelid) \<Rightarrow>
                    if truthy (is_hoverxref_configured e)
                    then (let refnode1 = inject_hoverxref_data e refnode docname labelid
                          in case getattr_hoverxref refnode1 of
                               Inl err \<Rightarrow> Inl err
                             | Inr h \<Rightarrow>
                                 Inr (Some refnode1,
                                      logger_info '':%s: _hoverxref injected: fromdocname=%s %s''
                                        [ArgStr typ, ArgStr fromdocname, ArgDict h] lg))
                    else Inr (Some refnode, lg))
          else Inr (Some refnode, lg))"

definition resolve_xref ::
  "(env \<Rightarrow> string \<Rightarrow> 'b \<Rightarrow> string \<Rightarrow> string \<Rightarrow> 'n \<Rightarrow> 'n \<Rightarrow> log \<Rightarrow> error + (node option \<times> log)) \<Rightarrow>
   (env \<Rightarrow> string \<Rightarrow> 'b \<Rightarrow> string \<Rightarrow> string \<Rightarrow> 'n \<Rightarrow> 'n \<Rightarrow> node option) \<Rightarrow>
   ('n \<Rightarrow> string \<Rightarrow> pyval \<times> pyval \<times> pyval) \<Rightarrow>
   env \<Rightarrow> string \<Rightarrow> 'b \<Rightarrow> string \<Rightarrow> string \<Rightarrow> 'n \<Rightarrow> 'n \<Rightarrow> log \<Rightarrow>
   error + (node option \<times> log)" where
  "resolve_xref super_resolve_xref super_resolve_ref_xref get_ref_xref_data
       e fromdocname builder typ target nd contnode lg =
     (if typ = ''hoverxref''
      then resolve_ref_xref super_resolve_ref_xref get_ref_xref_data
             e fromdocname builder typ target nd contnode lg
      else super_resolve_xref e fromdocname builder typ target nd contnode lg)"

section \<open>HoverXRefHTMLTranslator\<close>

text \<open>
  \<open>starttag\<close> works on the document tree, a store from addresses to nodes, because it
  compares a node with its parent and rebinds the node's \<open>ids\<close>. The host's emission
  (\<open>super().starttag\<close>) is a parameter; it receives the tree as the interceptor left it
  and the final attributes. A node without parent has \<open>parent = None\<close>, and reading
  \<open>node.parent.get\<close> there raises \<open>AttributeError\<close>.
\<close>

definition starttag ::
  "(doctree \<Rightarrow> nat \<Rightarrow> string \<Rightarrow> string \<Rightarrow> bool \<Rightarrow> dict \<Rightarrow> 'out) \<Rightarrow>
   doctree \<Rightarrow> nat \<Rightarrow> string \<Rightarrow> string \<Rightarrow> bool \<Rightarrow> dict \<Rightarrow> log \<Rightarrow>
   error + (doctree \<times> log \<times> 'out)" where
  "starttag super_starttag tree nd tagname suffix empty' attributes lg =
     (if tagname = ''a'' \<and> hoverxref (tree nd) \<noteq> None
      then (case getattr_hoverxref (tree nd) of
              Inl err \<Rightarrow> Inl err
            | Inr h \<Rightarrow>
                (let attributes1 = dict_update attributes h;
                     lg1 = logger_info ''_hoverxref attributes: %s'' [ArgDict attributes1] lg
                 in Inr (tree, lg1, super_starttag tree nd tagname suffix empty' attributes1)))
      else if tagname = ''dt''
      then (case parent (tree nd) of
              None \<Rightarrow> Inl AttributeError
            | Some p \<Rightarrow>
                (let tree1 = (if ids (tree p) = ids (tree nd)
                              then tree(nd := (tree nd)\<lparr>ids := []\<rparr>)
                              else tree)
                 in Inr (tree1, lg, super_starttag tree1 nd tagname suffix empty' attributes)))
      else Inr (tree, lg, super_starttag tree nd tagname suffix empty' attributes))"

section \<open>Strings and paths\<close>

definition startswith :: "string \<Rightarrow> string \<Rightarrow> bool" where
  "startswith s p = (take (length p) s = p)"

definition endswith :: "string \<Rightarrow> string \<Rightarrow> bool" where
  "endswith s p = (length p \<le> length s \<and> drop (length s - length p) s = p)"

text \<open>
  \<open>s.replace(old, new)\<close>: every occurrence of \<open>old\<close>, found from left to right without
  overlap, becomes \<open>new\<close>; an empty \<open>old\<close> matches before every character and at the end.
\<close>

function str_replace :: "string \<Rightarrow> string \<Rightarrow> string \<Rightarrow> string" where
  "str_replace s old new =
     (if old = [] then new @ concat (map (\<lambda>c. c # new) s)
      else if s = [] then []
      else if take (length old) s = old then new @ str_replace (drop (length old) s) old new
      else hd s # str_replace (tl s) old new)"
  by pat_completeness auto
termination
  by (relation "measure (\<lambda>(s, old, new). length s)") auto

declare str_replace.simps [simp del]

text \<open>\<open>s.split('.')[-1]\<close>: what follows the last dot, the whole string when it has none.\<close>

definition split_dot_last :: "string \<Rightarrow> string" where
  "split_dot_last s = rev (takeWhile (\<lambda>c. c \<noteq> CHR ''.'') (rev s))"

text \<open>\<open>os.path.join\<close> and \<open>os.path.dirname\<close> of a POSIX system.\<close>

definition path_join2 :: "string \<Rightarrow> string \<Rightarrow> string" where
  "path_join2 path b =
     (if startswith b ''/'' then b
      else if path = [] \<or> endswith path ''/'' then path @ b
      else path @ ''/'' @ b)"

definition path_join :: "string \<Rightarrow> string list \<Rightarrow> string" where
  "path_join a p = fold (\<lambda>b path. path_join2 path b) p a"

definition rstrip_slash :: "string \<Rightarrow> string" where
  "rstrip_slash s = rev (dropWhile (\<lambda>c. c = CHR ''/'') (rev s))"

definition dirname :: "string \<Rightarrow> string" where
  "dirname p =
     (let hd_part = rev (dropWhile (\<lambda>c. c \<noteq> CHR ''/'') (rev p))
      in if hd_part \<noteq> [] \<and> hd_part \<noteq> replicate (length hd_part) (CHR ''/'')
         then rstrip_slash hd_part else hd_part)"

section \<open>Asset files\<close>

definition ASSETS_FILES :: "string list" where
  "ASSETS_FILES =
     [''js/hoverxref.js_t'',
      ''js/tooltipster.bundle.min.js'',
      ''css/tooltipster.custom.css'',
      ''css/tooltipster.bundle.min.css'',
      ''css/tooltipster-sideTip-shadow.min.css'']"

text \<open>
  The application object, as \<open>copy_asset_files\<close> reads it: \<open>app.config.values\<close> maps
  an option name to its declaration (the default first, then the rebuild marker),
  \<open>config_attrs\<close> lists the attribute names of \<open>app.config\<close> as \<open>dir\<close> gives them,
  each with the value \<open>getattr\<close> returns, and \<open>app.outdir\<close> is the output directory.
\<close>

record app =
  config_values :: "(string \<times> pyval \<times> string) list"
  config_attrs :: dict
  outdir :: string

definition template_context :: "app \<Rightarrow> dict" where
  "template_context a =
     (let context0 = fold (\<lambda>(attr, dflt, rebuild) context.
                        if startswith attr ''hoverxref_''
                        then dict_setitem attr dflt context else context)
                      (config_values a) [];
          context1 = fold (\<lambda>(attr, val) context.
                        if startswith attr ''hoverxref_''
                        then dict_setitem attr val context else context)
                      (config_attrs a) context0
      in context1)"

text \<open>
  The build-finished handler. The host's \<open>copy_asset\<close> is a parameter that transforms the
  state of the output tree, of an arbitrary type \<open>'fs\<close>; \<open>file\<close> is the module's
  \<open>__file__\<close>; \<open>exception\<close> is \<open>None\<close> when the build succeeded.
\<close>

definition copy_asset_files ::
  "(string \<Rightarrow> string \<Rightarrow> dict \<Rightarrow> 'fs \<Rightarrow> 'fs) \<Rightarrow> string \<Rightarrow> app \<Rightarrow> 'e option \<Rightarrow> 'fs \<Rightarrow> 'fs" where
  "copy_asset_files copy_asset file a exception fs =
     (case exception of
        None \<Rightarrow>
          (let context = template_context a
           in fold (\<lambda>f fs1.
                  (let path = path_join (dirname file) [''_static'', f]
                   in copy_asset path
                        (path_join (outdir a)
                           [''_static'', str_replace (split_dot_last f) ''js_t'' ''js''])
                        context fs1))
                ASSETS_FILES fs)
      | Some _ \<Rightarrow> fs)"

section \<open>Setup\<close>

text \<open>
  The extension's \<open>setup(app)\<close>, here \<open>setup_app\<close>, talks to the host through
  registration calls only; the model returns the
  calls in the order they are made, and the metadata dictionary. \<open>environ\<close> is
  \<open>os.environ\<close>, and \<open>version\<close> the package's version string, imported from the
  package.
\<close>

datatype xref_role = XRefRole (lowercase: bool) (innernodeclass: string) (warn_dangling: bool)

datatype translator_class = HoverXRefHTMLTranslator

datatype domain_class = HoverXRefStandardDomain

datatype handler = Handler_copy_asset_files

datatype app_call =
    RequireSphinx string
  | AddConfigValue string pyval string
  | SetTranslator string translator_class bool
  | AddRoleToDomain string string xref_role
  | AddDomain domain_class bool
  | Connect string handler
  | AddJsFile string
  | AddCssFile string

definition environ_get :: "(string \<rightharpoonup> string) \<Rightarrow> string \<Rightarrow> pyval" where
  "environ_get environ k = (case environ k of None \<Rightarrow> PyNone | Some s \<Rightarrow> PyStr s)"

definition asset_calls :: "string \<Rightarrow> app_call list" where
  "asset_calls f =
     (if endswith f ''.js'' \<or> endswith f ''.js_t''
      then [AddJsFile (str_replace f ''.js_t'' ''.js'')] else []) @
     (if endswith f ''.css'' then [AddCssFile f] else [])"

definition setup_app :: "(string \<rightharpoonup> string) \<Rightarrow> string \<Rightarrow> app_call list \<times> dict" where
  "setup_app environ version =
     (let default_project = environ_get environ ''READTHEDOCS_PROJECT'';
          default_version = environ_get environ ''READTHEDOCS_VERSION''
      in ([RequireSphinx ''1.8'',
           AddConfigValue ''hoverxref_project'' default_project ''html'',
           AddConfigValue ''hoverxref_version'' default_version ''html'',
           AddConfigValue ''hoverxref_auto_ref'' (PyBool False) ''env'',
           AddConfigValue ''hoverxref_tooltip_api_host'' (PyStr ''https://readthedocs.org'') ''env'',
           AddConfigValue ''hoverxref_tooltip_theme''
             (PyList [PyStr ''tooltipster-shadow'', PyStr ''tooltipster-shadow-custom'']) ''env'',
           AddConfigValue ''hoverxref_tooltip_interactive'' (PyBool True) ''env'',
           AddConfigValue ''hoverxref_tooltip_maxwidth'' (PyInt 450) ''env'',
           AddConfigValue ''hoverxref_tooltip_animation'' (PyStr ''fade'') ''env'',
           AddConfigValue ''hoverxref_tooltip_animation_duration'' (PyInt 0) ''env'',
           AddConfigValue ''hoverxref_tooltip_content'' (PyStr ''Loading...'') ''env'',
           AddConfigValue ''hoverxref_tooltip_class'' (PyStr ''rst-content'') ''env'',
           SetTranslator ''html'' HoverXRefHTMLTranslator True,
           SetTranslator ''readthedocs'' HoverXRefHTMLTranslator True,
           AddRoleToDomain ''std'' ''hoverxref'' (XRefRole True ''inline'' True),
           AddDomain HoverXRefStandardDomain True,
           Connect ''build-finished'' Handler_copy_asset_files]
          @ concat (map asset_calls ASSETS_FILES),
          [(''version'', PyStr version),
           (''parallel_read_safe'', PyBool True),
           (''parallel_write_safe'', PyBool True)]))"

text \<open>The configuration options a sequence of calls registers, in order, and their defaults.\<close>

fun config_option :: "app_call \<Rightarrow> (string \<times> pyval) list" where
  "config_option (AddConfigValue name dflt rebuild) = [(name, dflt)]"
| "config_option _ = []"

definition registered_options :: "app_call list \<Rightarrow> (string \<times> pyval) list" where
  "registered_options calls = concat (map config_option calls)"

text \<open>
  Modelled from the spec: the host's configuration object, which is not part of the
  extension. Options are ``initialized once at extension setup, overridable per-build'',
  and ``per-build overrides take precedence over declared defaults'': the active value of
  a registered option is the override when the user gives one, and the declared default
  otherwise. An option that was never registered has no value.
\<close>

definition active_value :: "app_call list \<Rightarrow> (string \<rightharpoonup> pyval) \<Rightarrow> string \<Rightarrow> pyval option" where
  "active_value calls overrides name =
     (case map_of (registered_options calls) name of
        None \<Rightarrow> None
      | Some dflt \<Rightarrow> (case overrides name of None \<Rightarrow> Some dflt | Some v \<Rightarrow> Some v))"

definition active_config :: "app_call list \<Rightarrow> (string \<rightharpoonup> pyval) \<Rightarrow> config option" where
  "active_config calls overrides =
     (case (active_value calls overrides ''hoverxref_project'',
            active_value calls overrides ''hoverxref_version'',
            active_value calls overrides ''hoverxref_auto_ref'') of
        (Some p, Some v, Some a) \<Rightarrow>
          Some \<lparr>hoverxref_project = p, hoverxref_version = v, hoverxref_auto_ref = a\<rparr>
      | _ \<Rightarrow> None)"


section \<open>Basic facts about the embedding\<close>

lemma truthy_py_and: "truthy (py_and a b) = (truthy a \<and> truthy b)"
  by (simp add: py_and_def)

lemma truthy_configured:
  "truthy (is_hoverxref_configured e) =
     (truthy (hoverxref_project (config e)) \<and> truthy (hoverxref_version (config e)))"
  by (simp add: is_hoverxref_configured_def truthy_py_and)

lemma map_of_dict_setitem: "map_of (dict_setitem k v d) = (map_of d)(k \<mapsto> v)"
  by (induction d) auto

lemma keys_dict_setitem: "fst ` set (dict_setitem k v d) = insert k (fst ` set d)"
  by (induction d) auto

lemma map_of_dict_update_rev:
  "map_of (dict_update d other) = map_of d ++ map_of (rev other)"
  unfolding dict_update_def
proof (induction other arbitrary: d)
  case Nil
  show ?case by simp
next
  case (Cons x xs)
  obtain k v where x: "x = (k, v)" by (cases x)
  show ?case
    by (simp add: x Cons.IH map_of_dict_setitem map_add_def fun_eq_iff split: option.splits)
qed

lemma keys_fold_setitem:
  "fst ` set (fold (\<lambda>(k, v). dict_setitem k v) other d) = fst ` set d \<union> fst ` set other"
proof (induction other arbitrary: d)
  case Nil
  show ?case by simp
next
  case (Cons x xs)
  obtain k v where x: "x = (k, v)" by (cases x)
  show ?case
    by (simp add: x Cons.IH keys_dict_setitem)
qed

lemma keys_dict_update:
  "set (dict_keys (dict_update d other)) = set (dict_keys d) \<union> set (dict_keys other)"
  by (simp add: dict_update_def dict_keys_def keys_fold_setitem)

lemma map_of_rev_distinct:
  "distinct (map fst xs) \<Longrightarrow> map_of (rev xs) = map_of xs"
proof -
  assume d: "distinct (map fst xs)"
  have "distinct (map fst (rev xs))"
    using d by (metis distinct_rev rev_map)
  then show ?thesis
    using d by (simp add: map_of_inject_set)
qed

lemma dict_get_update:
  assumes "distinct (dict_keys other)"
  shows "dict_get (dict_update d other) k =
           (case dict_get other k of None \<Rightarrow> dict_get d k | Some v \<Rightarrow> Some v)"
  using assms
  by (simp add: dict_get_def dict_keys_def map_of_dict_update_rev map_of_rev_distinct map_add_def
        split: option.splits)

lemma inject_eq:
  "inject_hoverxref_data e refnode docname labelid =
     refnode\<lparr>classes := [''hoverxref''],
             hoverxref := Some [(''data-project'', hoverxref_project (config e)),
                                (''data-version'', hoverxref_version (config e)),
                                (''data-doc'', docname),
                                (''data-section'', labelid)]\<rparr>"
  by (simp add: inject_hoverxref_data_def)

lemma resolve_ref_xref_inject:
  assumes "truthy (hoverxref_project (config e))" and "truthy (hoverxref_version (config e))"
    and "truthy (hoverxref_auto_ref (config e)) \<or> typ = ''hoverxref''"
    and "super_resolve_ref_xref e fromdocname builder typ target nd contnode = Some refnode"
    and "get_ref_xref_data nd target = (docname, labelid, sectname)"
  shows "resolve_ref_xref super_resolve_ref_xref get_ref_xref_data
           e fromdocname builder typ target nd contnode lg =
         Inr (Some (refnode\<lparr>classes := [''hoverxref''],
                hoverxref := Some [(''data-project'', hoverxref_project (config e)),
                                   (''data-version'', hoverxref_version (config e)),
                                   (''data-doc'', docname),
                                   (''data-section'', labelid)]\<rparr>),
              logger_info '':ref: _hoverxref injected: fromdocname=%s %s''
                [ArgStr fromdocname,
                 ArgDict [(''data-project'', hoverxref_project (config e)),
                          (''data-version'', hoverxref_version (config e)),
                          (''data-doc'', docname),
                          (''data-section'', labelid)]] lg)"
  using assms
  by (auto simp: resolve_ref_xref_def truthy_configured getattr_hoverxref_def inject_eq Let_def)

lemma starttag_anchor:
  assumes "hoverxref (tree a) = Some meta"
  shows "starttag super_starttag tree a ''a'' suffix empty' attributes lg =
         Inr (tree,
              logger_info ''_hoverxref attributes: %s'' [ArgDict (dict_update attributes meta)] lg,
              super_starttag tree a ''a'' suffix empty' (dict_update attributes meta))"
  using assms
  by (simp add: starttag_def getattr_hoverxref_def Let_def)


section \<open>The dedicated hover role\<close>

text \<open>
  Claim C1. A reference of the dedicated role \<open>hoverxref\<close> that the host resolves, with
  \<open>hoverxref_project\<close> and \<open>hoverxref_version\<close> both set and non-empty, comes back
  from \<open>resolve_xref\<close> with its class list overwritten to the marker \<open>hoverxref\<close> and
  with the metadata dictionary of exactly four keys: \<open>data-project\<close> and
  \<open>data-version\<close> hold the configured values, \<open>data-doc\<close> and \<open>data-section\<close> the
  document and the anchor id that identifier extraction gives for the target. When that
  node is emitted as an \<open>a\<close> tag, the attributes handed to the host's emission are the
  incoming ones updated with these four pairs: the four keys carry the four values, every
  other key keeps its value, and no further key appears.
\<close>

theorem hover_role_emits_metadata:
  assumes "truthy (hoverxref_project (config e))"
    and "truthy (hoverxref_version (config e))"
    and "super_resolve_ref_xref e fromdocname builder ''hoverxref'' target nd contnode = Some refnode"
    and "get_ref_xref_data nd target = (docname, labelid, sectname)"
  shows
    "let meta = [(''data-project'', hoverxref_project (config e)),
                 (''data-version'', hoverxref_version (config e)),
                 (''data-doc'', docname),
                 (''data-section'', labelid)];
         refnode1 = refnode\<lparr>classes := [''hoverxref''], hoverxref := Some meta\<rparr>;
         lg1 = logger_info '':ref: _hoverxref injected: fromdocname=%s %s''
                 [ArgStr fromdocname, ArgDict meta] lg;
         tree1 = tree(a := refnode1);
         attributes1 = dict_update attributes meta
     in resolve_xref super_resolve_xref super_resolve_ref_xref get_ref_xref_data
          e fromdocname builder ''hoverxref'' target nd contnode lg = Inr (Some refnode1, lg1)
      \<and> classes refnode1 = [''hoverxref'']
      \<and> starttag super_starttag tree1 a ''a'' suffix empty' attributes lg1 =
          Inr (tree1,
               logger_info ''_hoverxref attributes: %s'' [ArgDict attributes1] lg1,
               super_starttag tree1 a ''a'' suffix empty' attributes1)
      \<and> dict_get attributes1 ''data-project'' = Some (hoverxref_project (config e))
      \<and> dict_get attributes1 ''data-version'' = Some (hoverxref_version (config e))
      \<and> dict_get attributes1 ''data-doc'' = Some docname
      \<and> dict_get attributes1 ''data-section'' = Some labelid
      \<and> (\<forall>k. k \<notin> {''data-project'', ''data-version'', ''data-doc'', ''data-section''}
             \<longrightarrow> dict_get attributes1 k = dict_get attributes k)
      \<and> set (dict_keys attributes1) =
          set (dict_keys attributes) \<union>
            {''data-project'', ''data-version'', ''data-doc'', ''data-section''}"
proof -
  let ?meta = "[(''data-project'', hoverxref_project (config e)),
                (''data-version'', hoverxref_version (config e)),
                (''data-doc'', docname),
                (''data-section'', labelid)]"
  let ?refnode1 = "refnode\<lparr>classes := [''hoverxref''], hoverxref := Some ?meta\<rparr>"
  let ?lg1 = "logger_info '':ref: _hoverxref injected: fromdocname=%s %s''
                [ArgStr fromdocname, ArgDict ?meta] lg"
  have res: "resolve_xref super_resolve_xref super_resolve_ref_xref get_ref_xref_data
          e fromdocname builder ''hoverxref'' target nd contnode lg = Inr (Some ?refnode1, ?lg1)"
    using assms by (simp add: resolve_xref_def resolve_ref_xref_inject)
  have tag: "starttag super_starttag (tree(a := ?refnode1)) a ''a'' suffix empty' attributes ?lg1 =
          Inr (tree(a := ?refnode1),
               logger_info ''_hoverxref attributes: %s''
                 [ArgDict (dict_update attributes ?meta)] ?lg1,
               super_starttag (tree(a := ?refnode1)) a ''a'' suffix empty'
                 (dict_update attributes ?meta))"
    by (rule starttag_anchor) simp
  have dist: "distinct (dict_keys ?meta)"
    by (simp add: dict_keys_def)
  have get: "dict_get (dict_update attributes ?meta) k =
               (case dict_get ?meta k of None \<Rightarrow> dict_get attributes k | Some v \<Rightarrow> Some v)" for k
    using dist by (rule dict_get_update)
  have keys: "set (dict_keys (dict_update attributes ?meta)) =
          set (dict_keys attributes) \<union>
            {''data-project'', ''data-version'', ''data-doc'', ''data-section''}"
    by (simp add: keys_dict_update) (simp add: dict_keys_def)
  have other: "\<forall>k. k \<notin> {''data-project'', ''data-version'', ''data-doc'', ''data-section''}
             \<longrightarrow> dict_get (dict_update attributes ?meta) k = dict_get attributes k"
    by (simp add: get) (simp add: dict_get_def)
  have g1: "dict_get (dict_update attributes ?meta) ''data-project'' = Some (hoverxref_project (config e))"
    by (simp add: get) (simp add: dict_get_def)
  have g2: "dict_get (dict_update attributes ?meta) ''data-version'' = Some (hoverxref_version (config e))"
    by (simp add: get) (simp add: dict_get_def)
  have g3: "dict_get (dict_update attributes ?meta) ''data-doc'' = Some docname"
    by (simp add: get) (simp add: dict_get_def)
  have g4: "dict_get (dict_update attributes ?meta) ''data-section'' = Some labelid"
    by (simp add: get) (simp add: dict_get_def)
  show ?thesis
    unfolding Let_def
    using res tag g1 g2 g3 g4 other keys by simp
qed


theorem hover_role_emits_metadata_witness:
  "truthy (PyStr ''myproject'') \<and> truthy (PyStr ''myversion'')
   \<and> resolve_xref
         (\<lambda>e fromdocname builder typ target nd contnode lg. Inr (None, lg))
         (\<lambda>e fromdocname builder typ target nd contnode.
            if target = ''section-i''
            then Some \<lparr>ids = [], classes = [], parent = None, hoverxref = None\<rparr> else None)
         (\<lambda>nd target. (PyStr ''chapter-i'', PyStr target, PyStr ''Section I''))
         \<lparr>config = \<lparr>hoverxref_project = PyStr ''myproject'',
                     hoverxref_version = PyStr ''myversion'',
                     hoverxref_auto_ref = PyBool False\<rparr>\<rparr>
         ''index'' () ''hoverxref'' ''section-i'' () () []
       = Inr (Some \<lparr>ids = [], classes = [''hoverxref''], parent = None,
                    hoverxref = Some [(''data-project'', PyStr ''myproject''),
                                      (''data-version'', PyStr ''myversion''),
                                      (''data-doc'', PyStr ''chapter-i''),
                                      (''data-section'', PyStr ''section-i'')]\<rparr>,
              [LogRecord INFO '':ref: _hoverxref injected: fromdocname=%s %s''
                 [ArgStr ''index'',
                  ArgDict [(''data-project'', PyStr ''myproject''),
                           (''data-version'', PyStr ''myversion''),
                           (''data-doc'', PyStr ''chapter-i''),
                           (''data-section'', PyStr ''section-i'')]]])
   \<and> dict_update [(''class'', PyStr ''reference internal''),
                   (''href'', PyStr ''chapter-i.html#section-i'')]
                  [(''data-project'', PyStr ''myproject''),
                   (''data-version'', PyStr ''myversion''),
                   (''data-doc'', PyStr ''chapter-i''),
                   (''data-section'', PyStr ''section-i'')]
       = [(''class'', PyStr ''reference internal''),
          (''href'', PyStr ''chapter-i.html#section-i''),
          (''data-project'', PyStr ''myproject''),
          (''data-version'', PyStr ''myversion''),
          (''data-doc'', PyStr ''chapter-i''),
          (''data-section'', PyStr ''section-i'')]"
  using hover_role_emits_metadata
    [where e = "\<lparr>config = \<lparr>hoverxref_project = PyStr ''myproject'',
                     hoverxref_version = PyStr ''myversion'',
                     hoverxref_auto_ref = PyBool False\<rparr>\<rparr>"
       and super_resolve_ref_xref = "\<lambda>e fromdocname builder typ target nd contnode.
            if target = ''section-i''
            then Some \<lparr>ids = [], classes = [], parent = None, hoverxref = None\<rparr> else None"
       and get_ref_xref_data = "\<lambda>nd target. (PyStr ''chapter-i'', PyStr target, PyStr ''Section I'')"
       and super_resolve_xref = "\<lambda>e fromdocname builder typ target nd contnode lg. Inr (None, lg)"
       and fromdocname = "''index''" and builder = "()" and target = "''section-i''"
       and nd = "()" and contnode = "()" and lg = "[]"
       and refnode = "\<lparr>ids = [], classes = [], parent = None, hoverxref = None\<rparr>"
       and docname = "PyStr ''chapter-i''" and labelid = "PyStr ''section-i''"
       and sectname = "PyStr ''Section I''"
       and attributes = "[(''class'', PyStr ''reference internal''),
                          (''href'', PyStr ''chapter-i.html#section-i'')]"
       and tree = "\<lambda>_. \<lparr>ids = [], classes = [], parent = None, hoverxref = None\<rparr>"
       and a = 0 and suffix = "[]" and empty' = False
       and super_starttag = "\<lambda>tree nd tagname suffix empty' attributes. attributes"]
  by (simp add: Let_def logger_info_def dict_update_def)

section \<open>Generic references under the auto-apply flag\<close>



section \<open>The dedicated hover role without project or version\<close>

text \<open>
  Claim C3. A reference of the dedicated role that the host resolves while
  \<open>hoverxref_project\<close> or \<open>hoverxref_version\<close> is unset or empty comes back as the very
  node the host built: no metadata, no marker class. The log grows by exactly one record,
  the warning. When that node is emitted as an \<open>a\<close> tag, the host's emission receives the
  tree and the attributes unchanged.
\<close>

theorem hover_role_unconfigured_warns_once:
  assumes "\<not> truthy (hoverxref_project (config e)) \<or> \<not> truthy (hoverxref_version (config e))"
    and "super_resolve_ref_xref e fromdocname builder ''hoverxref'' target nd contnode = Some refnode"
    and "hoverxref refnode = None"
  shows
    "let lg1 = lg @ [LogRecord WARNING ''hoverxref role is not fully configured.'' []];
         tree1 = tree(a := refnode)
     in resolve_xref super_resolve_xref super_resolve_ref_xref get_ref_xref_data
          e fromdocname builder ''hoverxref'' target nd contnode lg = Inr (Some refnode, lg1)
      \<and> length (filter is_warning lg1) = length (filter is_warning lg) + 1
      \<and> length lg1 = length lg + 1
      \<and> starttag super_starttag tree1 a ''a'' suffix empty' attributes lg1 =
          Inr (tree1, lg1, super_starttag tree1 a ''a'' suffix empty' attributes)"
proof -
  have ncfg: "\<not> (truthy (hoverxref_project (config e)) \<and> truthy (hoverxref_version (config e)))"
    using assms(1) by blast
  have res: "resolve_xref super_resolve_xref super_resolve_ref_xref get_ref_xref_data
          e fromdocname builder ''hoverxref'' target nd contnode lg
          = Inr (Some refnode, lg @ [LogRecord WARNING ''hoverxref role is not fully configured.'' []])"
    using ncfg assms(2)
    by (auto simp: resolve_xref_def resolve_ref_xref_def truthy_configured logger_warning_def Let_def)
  have tag: "starttag super_starttag (tree(a := refnode)) a ''a'' suffix empty' attributes lg2 =
          Inr (tree(a := refnode), lg2,
               super_starttag (tree(a := refnode)) a ''a'' suffix empty' attributes)" for lg2
    using assms(3) by (simp add: starttag_def)
  show ?thesis
    unfolding Let_def using res tag by simp
qed

theorem hover_role_unconfigured_warns_once_witness:
  "\<not> truthy PyNone
   \<and> resolve_xref
         (\<lambda>e fromdocname builder typ target nd contnode lg. Inr (None, lg))
         (\<lambda>e fromdocname builder typ target nd contnode.
            if target = ''section-i''
            then Some \<lparr>ids = [], classes = [], parent = None, hoverxref = None\<rparr> else None)
         (\<lambda>nd target. (PyStr ''chapter-i'', PyStr target, PyStr ''Section I''))
         \<lparr>config = \<lparr>hoverxref_project = PyNone,
                     hoverxref_version = PyStr ''myversion'',
                     hoverxref_auto_ref = PyBool False\<rparr>\<rparr>
         ''index'' () ''hoverxref'' ''section-i'' () () []
       = Inr (Some \<lparr>ids = [], classes = [], parent = None, hoverxref = None\<rparr>,
              [LogRecord WARNING ''hoverxref role is not fully configured.'' []])"
  using hover_role_unconfigured_warns_once
    [where e = "\<lparr>config = \<lparr>hoverxref_project = PyNone,
                     hoverxref_version = PyStr ''myversion'',
                     hoverxref_auto_ref = PyBool False\<rparr>\<rparr>"
       and super_resolve_ref_xref = "\<lambda>e fromdocname builder typ target nd contnode.
            if target = ''section-i''
            then Some \<lparr>ids = [], classes = [], parent = None, hoverxref = None\<rparr> else None"
       and get_ref_xref_data = "\<lambda>nd target. (PyStr ''chapter-i'', PyStr target, PyStr ''Section I'')"
       and super_resolve_xref = "\<lambda>e fromdocname builder typ target nd contnode lg. Inr (None, lg)"
       and fromdocname = "''index''" and builder = "()" and target = "''section-i''"
       and nd = "()" and contnode = "()" and lg = "[]"
       and refnode = "\<lparr>ids = [], classes = [], parent = None, hoverxref = None\<rparr>"
       and attributes = "[(''href'', PyStr ''chapter-i.html#section-i'')]"
       and tree = "\<lambda>_. \<lparr>ids = [], classes = [], parent = None, hoverxref = None\<rparr>"
       and a = 0 and suffix = "[]" and empty' = False
       and super_starttag = "\<lambda>tree nd tagname suffix empty' attributes. attributes"]
  by (simp add: Let_def)

section \<open>Object-style references\<close>

text \<open>
  Claim C4. An object-style reference whose kind is one of the registered object types and
  which the host resolves gets the marker class and the metadata dictionary whenever
  project and version are both set and non-empty. The auto-apply flag is not read: the
  result is the same for every value of \<open>hoverxref_auto_ref\<close>.
\<close>

theorem object_type_injects_regardless_of_auto_ref:
  assumes "kind \<in> set object_types"
    and "truthy (hoverxref_project (config e))"
    and "truthy (hoverxref_version (config e))"
    and "super_resolve_obj_xref
           (e\<lparr>config := (config e)\<lparr>hoverxref_auto_ref := flag\<rparr>\<rparr>)
           fromdocname builder kind target nd contnode = Some refnode"
    and "get_ref_obj_data nd kind target = (docname, labelid)"
  shows
    "let meta = [(''data-project'', hoverxref_project (config e)),
                 (''data-version'', hoverxref_version (config e)),
                 (''data-doc'', docname),
                 (''data-section'', labelid)]
     in resolve_obj_xref super_resolve_obj_xref get_ref_obj_data object_types
          (e\<lparr>config := (config e)\<lparr>hoverxref_auto_ref := flag\<rparr>\<rparr>)
          fromdocname builder kind target nd contnode lg
        = Inr (Some (refnode\<lparr>classes := [''hoverxref''], hoverxref := Some meta\<rparr>),
               logger_info '':%s: _hoverxref injected: fromdocname=%s %s''
                 [ArgStr kind, ArgStr fromdocname, ArgDict meta] lg)"
  using assms
  by (simp add: resolve_obj_xref_def truthy_configured getattr_hoverxref_def inject_eq Let_def)

theorem object_type_injects_regardless_of_auto_ref_witness:
  "''confval'' \<in> set [''confval'']
   \<and> truthy (PyStr ''myproject'') \<and> truthy (PyStr ''myversion'')
   \<and> resolve_obj_xref
         (\<lambda>e fromdocname builder typ target nd contnode.
            if target = ''conf-title''
            then Some \<lparr>ids = [], classes = [], parent = None, hoverxref = None\<rparr> else None)
         (\<lambda>nd typ target. (PyStr ''configuration'', PyStr (typ @ ''-'' @ target)))
         [''confval'']
         \<lparr>config = \<lparr>hoverxref_project = PyStr ''myproject'',
                     hoverxref_version = PyStr ''myversion'',
                     hoverxref_auto_ref = PyBool False\<rparr>\<rparr>
         ''index'' () ''confval'' ''conf-title'' () () []
       = Inr (Some \<lparr>ids = [], classes = [''hoverxref''], parent = None,
                    hoverxref = Some [(''data-project'', PyStr ''myproject''),
                                      (''data-version'', PyStr ''myversion''),
                                      (''data-doc'', PyStr ''configuration''),
                                      (''data-section'', PyStr ''confval-conf-title'')]\<rparr>,
              [LogRecord INFO '':%s: _hoverxref injected: fromdocname=%s %s''
                 [ArgStr ''confval'', ArgStr ''index'',
                  ArgDict [(''data-project'', PyStr ''myproject''),
                           (''data-version'', PyStr ''myversion''),
                           (''data-doc'', PyStr ''configuration''),
                           (''data-section'', PyStr ''confval-conf-title'')]]])"
  using object_type_injects_regardless_of_auto_ref
    [where e = "\<lparr>config = \<lparr>hoverxref_project = PyStr ''myproject'',
                     hoverxref_version = PyStr ''myversion'',
                     hoverxref_auto_ref = PyBool True\<rparr>\<rparr>"
       and flag = "PyBool False"
       and super_resolve_obj_xref = "\<lambda>e fromdocname builder typ target nd contnode.
            if target = ''conf-title''
            then Some \<lparr>ids = [], classes = [], parent = None, hoverxref = None\<rparr> else None"
       and get_ref_obj_data = "\<lambda>nd typ target. (PyStr ''configuration'', PyStr (typ @ ''-'' @ target))"
       and object_types = "[''confval'']"
       and kind = "''confval''"
       and fromdocname = "''index''" and builder = "()" and target = "''conf-title''"
       and nd = "()" and contnode = "()" and lg = "[]"
       and refnode = "\<lparr>ids = [], classes = [], parent = None, hoverxref = None\<rparr>"
       and docname = "PyStr ''configuration''" and labelid = "PyStr ''confval-conf-title''"]
  by (simp add: Let_def logger_info_def)

section \<open>Rendering\<close>

text \<open>
  Claim C5. When an \<open>a\<close> tag is emitted for a node that carries hover metadata, the
  attributes the host's emission receives are the incoming attributes updated with the
  metadata: every metadata key has the metadata's value, also when the incoming attributes
  already had that key, and every other key keeps its value. The metadata is a dictionary,
  so its keys are distinct.
\<close>

theorem starttag_merges_metadata:
  assumes "hoverxref (tree nd) = Some meta"
    and "distinct (dict_keys meta)"
  shows
    "starttag super_starttag tree nd ''a'' suffix empty' attributes lg =
       Inr (tree,
            logger_info ''_hoverxref attributes: %s'' [ArgDict (dict_update attributes meta)] lg,
            super_starttag tree nd ''a'' suffix empty' (dict_update attributes meta))
     \<and> (\<forall>k v. (k, v) \<in> set meta \<longrightarrow> dict_get (dict_update attributes meta) k = Some v)
     \<and> (\<forall>k. k \<notin> set (dict_keys meta) \<longrightarrow>
            dict_get (dict_update attributes meta) k = dict_get attributes k)
     \<and> set (dict_keys (dict_update attributes meta)) =
          set (dict_keys attributes) \<union> set (dict_keys meta)"
proof -
  have tag: "starttag super_starttag tree nd ''a'' suffix empty' attributes lg =
       Inr (tree,
            logger_info ''_hoverxref attributes: %s'' [ArgDict (dict_update attributes meta)] lg,
            super_starttag tree nd ''a'' suffix empty' (dict_update attributes meta))"
    using assms(1) by (simp add: starttag_def getattr_hoverxref_def Let_def)
  have get: "dict_get (dict_update attributes meta) k =
               (case dict_get meta k of None \<Rightarrow> dict_get attributes k | Some v \<Rightarrow> Some v)" for k
    using assms(2) by (rule dict_get_update)
  have wins: "dict_get (dict_update attributes meta) k = Some v" if "(k, v) \<in> set meta" for k v
  proof -
    have "map_of meta k = Some v"
      using assms(2) that by (simp add: dict_keys_def)
    then show ?thesis
      using get [of k] by (simp add: dict_get_def)
  qed
  have keeps: "dict_get (dict_update attributes meta) k = dict_get attributes k"
    if "k \<notin> set (dict_keys meta)" for k
  proof -
    have "map_of meta k = None"
      using that by (simp add: dict_keys_def map_of_eq_None_iff)
    then show ?thesis
      using get [of k] by (simp add: dict_get_def)
  qed
  show ?thesis
    using tag wins keeps keys_dict_update [of attributes meta] by blast
qed

theorem starttag_merges_metadata_witness:
  "distinct (dict_keys [(''data-doc'', PyStr ''chapter-i''), (''href'', PyStr ''#meta'')])
   \<and> starttag (\<lambda>tree nd tagname suffix empty' attributes. attributes)
        (\<lambda>_. \<lparr>ids = [], classes = [''hoverxref''], parent = None,
               hoverxref = Some [(''data-doc'', PyStr ''chapter-i''), (''href'', PyStr ''#meta'')]\<rparr>)
        0 ''a'' [] False
        [(''href'', PyStr ''chapter-i.html''), (''class'', PyStr ''reference'')] []
      = Inr (\<lambda>_. \<lparr>ids = [], classes = [''hoverxref''], parent = None,
               hoverxref = Some [(''data-doc'', PyStr ''chapter-i''), (''href'', PyStr ''#meta'')]\<rparr>,
             [LogRecord INFO ''_hoverxref attributes: %s''
                [ArgDict [(''href'', PyStr ''#meta''), (''class'', PyStr ''reference''),
                          (''data-doc'', PyStr ''chapter-i'')]]],
             [(''href'', PyStr ''#meta''), (''class'', PyStr ''reference''),
              (''data-doc'', PyStr ''chapter-i'')])
   \<and> dict_get (dict_update [(''href'', PyStr ''chapter-i.html''), (''class'', PyStr ''reference'')]
                 [(''data-doc'', PyStr ''chapter-i''), (''href'', PyStr ''#meta'')]) ''href''
       = Some (PyStr ''#meta'')
   \<and> dict_get (dict_update [(''href'', PyStr ''chapter-i.html''), (''class'', PyStr ''reference'')]
                 [(''data-doc'', PyStr ''chapter-i''), (''href'', PyStr ''#meta'')]) ''class''
       = Some (PyStr ''reference'')"
  using starttag_merges_metadata
    [where tree = "\<lambda>_. \<lparr>ids = [], classes = [''hoverxref''], parent = None,
               hoverxref = Some [(''data-doc'', PyStr ''chapter-i''), (''href'', PyStr ''#meta'')]\<rparr>"
       and nd = 0
       and meta = "[(''data-doc'', PyStr ''chapter-i''), (''href'', PyStr ''#meta'')]"
       and super_starttag = "\<lambda>tree nd tagname suffix empty' attributes. attributes"
       and suffix = "[]" and empty' = False
       and attributes = "[(''href'', PyStr ''chapter-i.html''), (''class'', PyStr ''reference'')]"
       and lg = "[]"]
  by (simp add: dict_keys_def dict_update_def dict_get_def logger_info_def)

text \<open>
  Claim C6, as stated: the term's identifiers are cleared whenever its identifier set
  equals its parent's identifier set. The code compares the two \<open>ids\<close> lists with \<open>==\<close>.
  A term with the ids \<open>b, a\<close> under a parent with the ids \<open>a, b\<close> has the same set of
  identifiers as its parent, and yet the tree reaches the host's emission unchanged: the
  term still carries \<open>b, a\<close>.
\<close>

theorem dt_set_equal_ids_counterexample:
  "parent (((\<lambda>_. \<lparr>ids = [], classes = [], parent = None, hoverxref = None\<rparr>)
       (0 := \<lparr>ids = [''a'', ''b''], classes = [''confval''],
               parent = None, hoverxref = None\<rparr>,
        1 := \<lparr>ids = [''b'', ''a''], classes = [],
               parent = Some 0, hoverxref = None\<rparr>)) 1) = Some 0
   \<and> set (ids (((\<lambda>_. \<lparr>ids = [], classes = [], parent = None, hoverxref = None\<rparr>)
       (0 := \<lparr>ids = [''a'', ''b''], classes = [''confval''],
               parent = None, hoverxref = None\<rparr>,
        1 := \<lparr>ids = [''b'', ''a''], classes = [],
               parent = Some 0, hoverxref = None\<rparr>)) 0))
     = set (ids (((\<lambda>_. \<lparr>ids = [], classes = [], parent = None, hoverxref = None\<rparr>)
       (0 := \<lparr>ids = [''a'', ''b''], classes = [''confval''],
               parent = None, hoverxref = None\<rparr>,
        1 := \<lparr>ids = [''b'', ''a''], classes = [],
               parent = Some 0, hoverxref = None\<rparr>)) 1))
   \<and> starttag (\<lambda>tree nd tagname suffix empty' attributes. (ids (tree nd), ids (tree 0)))
        ((\<lambda>_. \<lparr>ids = [], classes = [], parent = None, hoverxref = None\<rparr>)
          (0 := \<lparr>ids = [''a'', ''b''], classes = [''confval''],
                  parent = None, hoverxref = None\<rparr>,
           1 := \<lparr>ids = [''b'', ''a''], classes = [],
                  parent = Some 0, hoverxref = None\<rparr>))
        1 ''dt'' [] False [] []
      = Inr ((\<lambda>_. \<lparr>ids = [], classes = [], parent = None, hoverxref = None\<rparr>)
               (0 := \<lparr>ids = [''a'', ''b''], classes = [''confval''],
                       parent = None, hoverxref = None\<rparr>,
                1 := \<lparr>ids = [''b'', ''a''], classes = [],
                       parent = Some 0, hoverxref = None\<rparr>),
             [], ([''b'', ''a''], [''a'', ''b'']))"
  by (auto simp: starttag_def Let_def)

text \<open>
  Claim C6, amended. When a \<open>dt\<close> tag is emitted for a node whose \<open>ids\<close> list equals
  the \<open>ids\<close> list of its parent (the same identifiers in the same order), the node's
  \<open>ids\<close> are set to the empty list before the host's emission runs, so the emission sees a
  term without identifier; the parent node is left as it was and keeps its \<open>ids\<close>. The
  attributes and the log pass through unchanged. A node is never its own parent.
\<close>

theorem dt_duplicate_ids_cleared:
  assumes "parent (tree nd) = Some p"
    and "ids (tree p) = ids (tree nd)"
    and "p \<noteq> nd"
  shows
    "let tree1 = tree(nd := (tree nd)\<lparr>ids := []\<rparr>)
     in starttag super_starttag tree nd ''dt'' suffix empty' attributes lg =
          Inr (tree1, lg, super_starttag tree1 nd ''dt'' suffix empty' attributes)
      \<and> ids (tree1 nd) = []
      \<and> tree1 p = tree p
      \<and> ids (tree1 p) = ids (tree p)"
  using assms
  by (simp add: starttag_def Let_def)

theorem dt_duplicate_ids_cleared_witness:
  "parent (((\<lambda>_. \<lparr>ids = [], classes = [], parent = None, hoverxref = None\<rparr>)
       (0 := \<lparr>ids = [''confval-conf-title''], classes = [''confval''],
               parent = None, hoverxref = None\<rparr>,
        1 := \<lparr>ids = [''confval-conf-title''], classes = [],
               parent = Some 0, hoverxref = None\<rparr>)) 1) = Some 0
   \<and> (0::nat) \<noteq> 1
   \<and> starttag (\<lambda>tree nd tagname suffix empty' attributes. (ids (tree nd), ids (tree 0)))
        ((\<lambda>_. \<lparr>ids = [], classes = [], parent = None, hoverxref = None\<rparr>)
          (0 := \<lparr>ids = [''confval-conf-title''], classes = [''confval''],
                  parent = None, hoverxref = None\<rparr>,
           1 := \<lparr>ids = [''confval-conf-title''], classes = [],
                  parent = Some 0, hoverxref = None\<rparr>))
        1 ''dt'' [] False [] []
      = Inr ((\<lambda>_. \<lparr>ids = [], classes = [], parent = None, hoverxref = None\<rparr>)
               (0 := \<lparr>ids = [''confval-conf-title''], classes = [''confval''],
                       parent = None, hoverxref = None\<rparr>,
                1 := \<lparr>ids = [], classes = [], parent = Some 0, hoverxref = None\<rparr>),
             [], ([], [''confval-conf-title'']))"
  using dt_duplicate_ids_cleared
    [where tree = "(\<lambda>_. \<lparr>ids = [], classes = [], parent = None, hoverxref = None\<rparr>)
          (0 := \<lparr>ids = [''confval-conf-title''], classes = [''confval''],
                  parent = None, hoverxref = None\<rparr>,
           1 := \<lparr>ids = [''confval-conf-title''], classes = [],
                  parent = Some 0, hoverxref = None\<rparr>)"
       and nd = 1 and p = 0
       and super_starttag = "\<lambda>tree nd tagname suffix empty' attributes. (ids (tree nd), ids (tree 0))"
       and suffix = "[]" and empty' = False and attributes = "[]" and lg = "[]"]
  by (simp add: Let_def)

section \<open>Asset files after the build\<close>

text \<open>
  Claim C7. When the build-finished handler receives an exception, it does nothing: the
  template context is only built, and the host's \<open>copy_asset\<close> only called, in the branch
  of a successful build, so whatever \<open>copy_asset\<close> would do, the output tree stays as it
  was. In particular, with a \<open>copy_asset\<close> that records its calls, no call is recorded.
\<close>

theorem failed_build_skips_assets:
  "copy_asset_files copy_asset file a (Some exc) fs = fs
   \<and> copy_asset_files (\<lambda>path dest context calls. calls @ [(path, dest, context)])
         file a (Some exc) [] = []"
  by (simp add: copy_asset_files_def)

section \<open>Automatic triggers without project or version\<close>

text \<open>
  Claim C8. When \<open>hoverxref_project\<close> or \<open>hoverxref_version\<close> is unset or empty, a
  resolved generic reference (any kind but \<open>hoverxref\<close>, whatever the auto-apply flag) and
  a resolved object-style reference (whatever its kind, registered or not) come back as the
  very node the host built, and the log is unchanged: no metadata, no warning.
\<close>

theorem auto_trigger_unconfigured_silent:
  assumes "\<not> truthy (hoverxref_project (config e)) \<or> \<not> truthy (hoverxref_version (config e))"
    and "kind \<noteq> ''hoverxref''"
    and "super_resolve_ref_xref e fromdocname builder kind target nd contnode = Some refnode"
    and "super_resolve_obj_xref e fromdocname builder otyp otarget nd contnode = Some orefnode"
  shows
    "resolve_ref_xref super_resolve_ref_xref get_ref_xref_data
       e fromdocname builder kind target nd contnode lg = Inr (Some refnode, lg)
     \<and> resolve_obj_xref super_resolve_obj_xref get_ref_obj_data object_types
       e fromdocname builder otyp otarget nd contnode lg = Inr (Some orefnode, lg)"
proof -
  have ncfg: "\<not> (truthy (hoverxref_project (config e)) \<and> truthy (hoverxref_version (config e)))"
    using assms(1) by blast
  have ref: "resolve_ref_xref super_resolve_ref_xref get_ref_xref_data
       e fromdocname builder kind target nd contnode lg = Inr (Some refnode, lg)"
    using ncfg assms(2,3)
    by (auto simp: resolve_ref_xref_def truthy_configured Let_def)
  have obj: "resolve_obj_xref super_resolve_obj_xref get_ref_obj_data object_types
       e fromdocname builder otyp otarget nd contnode lg = Inr (Some orefnode, lg)"
    using ncfg assms(4)
    by (auto simp: resolve_obj_xref_def truthy_configured split: prod.splits)
  show ?thesis
    using ref obj by simp
qed

theorem auto_trigger_unconfigured_silent_witness:
  "\<not> truthy (PyStr '''')
   \<and> ''ref'' \<noteq> ''hoverxref''
   \<and> resolve_ref_xref
         (\<lambda>e fromdocname builder typ target nd contnode.
            Some \<lparr>ids = [], classes = [], parent = None, hoverxref = None\<rparr>)
         (\<lambda>nd target. (PyStr ''chapter-i'', PyStr target, PyStr ''Chapter I''))
         \<lparr>config = \<lparr>hoverxref_project = PyStr ''myproject'',
                     hoverxref_version = PyStr '''',
                     hoverxref_auto_ref = PyBool True\<rparr>\<rparr>
         ''index'' () ''ref'' ''chapter-i'' () () []
       = Inr (Some \<lparr>ids = [], classes = [], parent = None, hoverxref = None\<rparr>, [])
   \<and> resolve_obj_xref
         (\<lambda>e fromdocname builder typ target nd contnode.
            Some \<lparr>ids = [], classes = [], parent = None, hoverxref = None\<rparr>)
         (\<lambda>nd typ target. (PyStr ''configuration'', PyStr (typ @ ''-'' @ target)))
         [''confval'']
         \<lparr>config = \<lparr>hoverxref_project = PyStr ''myproject'',
                     hoverxref_version = PyStr '''',
                     hoverxref_auto_ref = PyBool True\<rparr>\<rparr>
         ''index'' () ''confval'' ''conf-title'' () () []
       = Inr (Some \<lparr>ids = [], classes = [], parent = None, hoverxref = None\<rparr>, [])"
  using auto_trigger_unconfigured_silent
    [where e = "\<lparr>config = \<lparr>hoverxref_project = PyStr ''myproject'',
                     hoverxref_version = PyStr '''',
                     hoverxref_auto_ref = PyBool True\<rparr>\<rparr>"
       and super_resolve_ref_xref = "\<lambda>e fromdocname builder typ target nd contnode.
            Some \<lparr>ids = [], classes = [], parent = None, hoverxref = None\<rparr>"
       and super_resolve_obj_xref = "\<lambda>e fromdocname builder typ target nd contnode.
            Some \<lparr>ids = [], classes = [], parent = None, hoverxref = None\<rparr>"
       and get_ref_xref_data = "\<lambda>nd target. (PyStr ''chapter-i'', PyStr target, PyStr ''Chapter I'')"
       and get_ref_obj_data = "\<lambda>nd typ target. (PyStr ''configuration'', PyStr (typ @ ''-'' @ target))"
       and object_types = "[''confval'']"
       and kind = "''ref''" and target = "''chapter-i''"
       and otyp = "''confval''" and otarget = "''conf-title''"
       and fromdocname = "''index''" and builder = "()"
       and nd = "()" and contnode = "()" and lg = "[]"
       and refnode = "\<lparr>ids = [], classes = [], parent = None, hoverxref = None\<rparr>"
       and orefnode = "\<lparr>ids = [], classes = [], parent = None, hoverxref = None\<rparr>"]
  by simp

section \<open>Registration at setup\<close>

lemma config_option_asset_calls: "concat (map config_option (asset_calls f)) = []"
  by (simp add: asset_calls_def)

lemma registered_options_asset_calls:
  "registered_options (concat (map asset_calls fs)) = []"
  by (induction fs) (simp_all add: registered_options_def config_option_asset_calls)

lemma registered_options_append:
  "registered_options (xs @ ys) = registered_options xs @ registered_options ys"
  by (simp add: registered_options_def)

lemma registered_options_setup_app:
  "registered_options (fst (setup_app environ version)) =
     [(''hoverxref_project'', environ_get environ ''READTHEDOCS_PROJECT''),
      (''hoverxref_version'', environ_get environ ''READTHEDOCS_VERSION''),
      (''hoverxref_auto_ref'', PyBool False),
      (''hoverxref_tooltip_api_host'', PyStr ''https://readthedocs.org''),
      (''hoverxref_tooltip_theme'',
         PyList [PyStr ''tooltipster-shadow'', PyStr ''tooltipster-shadow-custom'']),
      (''hoverxref_tooltip_interactive'', PyBool True),
      (''hoverxref_tooltip_maxwidth'', PyInt 450),
      (''hoverxref_tooltip_animation'', PyStr ''fade''),
      (''hoverxref_tooltip_animation_duration'', PyInt 0),
      (''hoverxref_tooltip_content'', PyStr ''Loading...''),
      (''hoverxref_tooltip_class'', PyStr ''rst-content'')]"
proof -
  let ?fixed =
    "[RequireSphinx ''1.8'',
      AddConfigValue ''hoverxref_project'' (environ_get environ ''READTHEDOCS_PROJECT'') ''html'',
      AddConfigValue ''hoverxref_version'' (environ_get environ ''READTHEDOCS_VERSION'') ''html'',
      AddConfigValue ''hoverxref_auto_ref'' (PyBool False) ''env'',
      AddConfigValue ''hoverxref_tooltip_api_host'' (PyStr ''https://readthedocs.org'') ''env'',
      AddConfigValue ''hoverxref_tooltip_theme''
        (PyList [PyStr ''tooltipster-shadow'', PyStr ''tooltipster-shadow-custom'']) ''env'',
      AddConfigValue ''hoverxref_tooltip_interactive'' (PyBool True) ''env'',
      AddConfigValue ''hoverxref_tooltip_maxwidth'' (PyInt 450) ''env'',
      AddConfigValue ''hoverxref_tooltip_animation'' (PyStr ''fade'') ''env'',
      AddConfigValue ''hoverxref_tooltip_animation_duration'' (PyInt 0) ''env'',
      AddConfigValue ''hoverxref_tooltip_content'' (PyStr ''Loading...'') ''env'',
      AddConfigValue ''hoverxref_tooltip_class'' (PyStr ''rst-content'') ''env'',
      SetTranslator ''html'' HoverXRefHTMLTranslator True,
      SetTranslator ''readthedocs'' HoverXRefHTMLTranslator True,
      AddRoleToDomain ''std'' ''hoverxref'' (XRefRole True ''inline'' True),
      AddDomain HoverXRefStandardDomain True,
      Connect ''build-finished'' Handler_copy_asset_files]"
  have split: "fst (setup_app environ version) = ?fixed @ concat (map asset_calls ASSETS_FILES)"
    by (simp add: setup_app_def Let_def)
  have "registered_options (fst (setup_app environ version)) = registered_options ?fixed"
    by (simp only: split registered_options_append registered_options_asset_calls append_Nil2)
  also have "registered_options ?fixed =
     [(''hoverxref_project'', environ_get environ ''READTHEDOCS_PROJECT''),
      (''hoverxref_version'', environ_get environ ''READTHEDOCS_VERSION''),
      (''hoverxref_auto_ref'', PyBool False),
      (''hoverxref_tooltip_api_host'', PyStr ''https://readthedocs.org''),
      (''hoverxref_tooltip_theme'',
         PyList [PyStr ''tooltipster-shadow'', PyStr ''tooltipster-shadow-custom'']),
      (''hoverxref_tooltip_interactive'', PyBool True),
      (''hoverxref_tooltip_maxwidth'', PyInt 450),
      (''hoverxref_tooltip_animation'', PyStr ''fade''),
      (''hoverxref_tooltip_animation_duration'', PyInt 0),
      (''hoverxref_tooltip_content'', PyStr ''Loading...''),
      (''hoverxref_tooltip_class'', PyStr ''rst-content'')]"
    by (simp add: registered_options_def)
  finally show ?thesis .
qed

text \<open>
  Claim C9, as stated: the extension registers exactly nine configuration options. With
  an environment that sets only \<open>READTHEDOCS_PROJECT\<close>, the number of options registered
  is not nine.
\<close>

theorem setup_registers_nine_options_counterexample:
  "length (registered_options
     (fst (setup_app (map_of [(''READTHEDOCS_PROJECT'', ''myproject'')]) ''0.1''))) \<noteq> 9"
  by (simp add: registered_options_setup_app)

text \<open>
  Claim C9, amended: the extension registers exactly eleven configuration options, under
  eleven distinct names, in this order: \<open>hoverxref_project\<close>, \<open>hoverxref_version\<close>,
  \<open>hoverxref_auto_ref\<close>, \<open>hoverxref_tooltip_api_host\<close>, \<open>hoverxref_tooltip_theme\<close>,
  \<open>hoverxref_tooltip_interactive\<close>, \<open>hoverxref_tooltip_maxwidth\<close>,
  \<open>hoverxref_tooltip_animation\<close>, \<open>hoverxref_tooltip_animation_duration\<close>,
  \<open>hoverxref_tooltip_content\<close> and \<open>hoverxref_tooltip_class\<close>.
\<close>

theorem setup_registers_eleven_options:
  "map fst (registered_options (fst (setup_app environ version))) =
     [''hoverxref_project'', ''hoverxref_version'', ''hoverxref_auto_ref'',
      ''hoverxref_tooltip_api_host'', ''hoverxref_tooltip_theme'',
      ''hoverxref_tooltip_interactive'', ''hoverxref_tooltip_maxwidth'',
      ''hoverxref_tooltip_animation'', ''hoverxref_tooltip_animation_duration'',
      ''hoverxref_tooltip_content'', ''hoverxref_tooltip_class'']
   \<and> length (registered_options (fst (setup_app environ version))) = 11
   \<and> distinct (map fst (registered_options (fst (setup_app environ version))))"
  by (simp add: registered_options_setup_app)

text \<open>
  Claim C10. The defaults that setup declares for \<open>hoverxref_project\<close> and
  \<open>hoverxref_version\<close> are the values of the environment variables
  \<open>READTHEDOCS_PROJECT\<close> and \<open>READTHEDOCS_VERSION\<close>. When both variables are set and
  non-empty and the user overrides neither option, the active configuration holds these
  two values, the extension counts as configured, and a resolved reference of the
  dedicated role gets the metadata with the environment's project and version.
\<close>

theorem readthedocs_environment_defaults:
  assumes "environ ''READTHEDOCS_PROJECT'' = Some p" and "p \<noteq> []"
    and "environ ''READTHEDOCS_VERSION'' = Some v" and "v \<noteq> []"
    and "overrides ''hoverxref_project'' = None"
    and "overrides ''hoverxref_version'' = None"
    and "get_ref_xref_data nd target = (docname, labelid, sectname)"
  shows
    "let calls = fst (setup_app environ version);
         cfg = \<lparr>hoverxref_project = PyStr p,
                hoverxref_version = PyStr v,
                hoverxref_auto_ref =
                  (case overrides ''hoverxref_auto_ref'' of None \<Rightarrow> PyBool False | Some x \<Rightarrow> x)\<rparr>;
         e = \<lparr>config = cfg\<rparr>;
         meta = [(''data-project'', PyStr p),
                 (''data-version'', PyStr v),
                 (''data-doc'', docname),
                 (''data-section'', labelid)]
     in map_of (registered_options calls) ''hoverxref_project'' = Some (PyStr p)
      \<and> map_of (registered_options calls) ''hoverxref_version'' = Some (PyStr v)
      \<and> active_config calls overrides = Some cfg
      \<and> truthy (is_hoverxref_configured e)
      \<and> (\<forall>refnode.
            super_resolve_ref_xref e fromdocname builder ''hoverxref'' target nd contnode
              = Some refnode \<longrightarrow>
            resolve_xref super_resolve_xref super_resolve_ref_xref get_ref_xref_data
              e fromdocname builder ''hoverxref'' target nd contnode lg
              = Inr (Some (refnode\<lparr>classes := [''hoverxref''], hoverxref := Some meta\<rparr>),
                     logger_info '':ref: _hoverxref injected: fromdocname=%s %s''
                       [ArgStr fromdocname, ArgDict meta] lg))"
proof -
  let ?calls = "fst (setup_app environ version)"
  let ?cfg = "\<lparr>hoverxref_project = PyStr p,
                hoverxref_version = PyStr v,
                hoverxref_auto_ref =
                  (case overrides ''hoverxref_auto_ref'' of None \<Rightarrow> PyBool False | Some x \<Rightarrow> x)\<rparr>"
  have dp: "map_of (registered_options ?calls) ''hoverxref_project'' = Some (PyStr p)"
    using assms(1) by (simp add: registered_options_setup_app environ_get_def)
  have dv: "map_of (registered_options ?calls) ''hoverxref_version'' = Some (PyStr v)"
    using assms(3) by (simp add: registered_options_setup_app environ_get_def)
  have da: "map_of (registered_options ?calls) ''hoverxref_auto_ref'' = Some (PyBool False)"
    by (simp add: registered_options_setup_app)
  have ac: "active_config ?calls overrides = Some ?cfg"
    using assms(5,6)
    by (simp add: active_config_def active_value_def dp dv da split: option.splits)
  have cf: "truthy (is_hoverxref_configured \<lparr>config = ?cfg\<rparr>)"
    using assms(2,4) by (simp add: truthy_configured)
  have rs: "resolve_xref super_resolve_xref super_resolve_ref_xref get_ref_xref_data
              \<lparr>config = ?cfg\<rparr> fromdocname builder ''hoverxref'' target nd contnode lg
              = Inr (Some (refnode\<lparr>classes := [''hoverxref''],
                       hoverxref := Some [(''data-project'', PyStr p),
                                          (''data-version'', PyStr v),
                                          (''data-doc'', docname),
                                          (''data-section'', labelid)]\<rparr>),
                     logger_info '':ref: _hoverxref injected: fromdocname=%s %s''
                       [ArgStr fromdocname,
                        ArgDict [(''data-project'', PyStr p),
                                 (''data-version'', PyStr v),
                                 (''data-doc'', docname),
                                 (''data-section'', labelid)]] lg)"
    if "super_resolve_ref_xref \<lparr>config = ?cfg\<rparr> fromdocname builder ''hoverxref''
          target nd contnode = Some refnode" for refnode
    using that assms(2,4,7)
    by (simp add: resolve_xref_def resolve_ref_xref_def truthy_configured
                  getattr_hoverxref_def inject_eq Let_def)
  show ?thesis
    unfolding Let_def using dp dv ac cf rs by blast
qed

theorem readthedocs_environment_defaults_witness:
  "map_of [(''READTHEDOCS_PROJECT'', ''myproject''), (''READTHEDOCS_VERSION'', ''latest'')]
       ''READTHEDOCS_PROJECT'' = Some ''myproject''
   \<and> ''myproject'' \<noteq> [] \<and> ''latest'' \<noteq> []
   \<and> active_config
        (fst (setup_app
           (map_of [(''READTHEDOCS_PROJECT'', ''myproject''), (''READTHEDOCS_VERSION'', ''latest'')])
           ''0.1''))
        (map_of [])
       = Some \<lparr>hoverxref_project = PyStr ''myproject'',
               hoverxref_version = PyStr ''latest'',
               hoverxref_auto_ref = PyBool False\<rparr>
   \<and> resolve_xref
         (\<lambda>e fromdocname builder typ target nd contnode lg. Inr (None, lg))
         (\<lambda>e fromdocname builder typ target nd contnode.
            Some \<lparr>ids = [], classes = [], parent = None, hoverxref = None\<rparr>)
         (\<lambda>nd target. (PyStr ''chapter-i'', PyStr target, PyStr ''Section I''))
         \<lparr>config = \<lparr>hoverxref_project = PyStr ''myproject'',
                     hoverxref_version = PyStr ''latest'',
                     hoverxref_auto_ref = PyBool False\<rparr>\<rparr>
         ''index'' () ''hoverxref'' ''section-i'' () () []
       = Inr (Some \<lparr>ids = [], classes = [''hoverxref''], parent = None,
                    hoverxref = Some [(''data-project'', PyStr ''myproject''),
                                      (''data-version'', PyStr ''latest''),
                                      (''data-doc'', PyStr ''chapter-i''),
                                      (''data-section'', PyStr ''section-i'')]\<rparr>,
              [LogRecord INFO '':ref: _hoverxref injected: fromdocname=%s %s''
                 [ArgStr ''index'',
                  ArgDict [(''data-project'', PyStr ''myproject''),
                           (''data-version'', PyStr ''latest''),
                           (''data-doc'', PyStr ''chapter-i''),
                           (''data-section'', PyStr ''section-i'')]]])"
  using readthedocs_environment_defaults
    [where environ = "map_of [(''READTHEDOCS_PROJECT'', ''myproject''),
                              (''READTHEDOCS_VERSION'', ''latest'')]"
       and version = "''0.1''" and overrides = "map_of []"
       and p = "''myproject''" and v = "''latest''"
       and super_resolve_ref_xref = "\<lambda>e fromdocname builder typ target nd contnode.
            Some \<lparr>ids = [], classes = [], parent = None, hoverxref = None\<rparr>"
       and get_ref_xref_data = "\<lambda>nd target. (PyStr ''chapter-i'', PyStr target, PyStr ''Section I'')"
       and super_resolve_xref = "\<lambda>e fromdocname builder typ target nd contnode lg. Inr (None, lg)"
       and fromdocname = "''index''" and builder = "()" and target = "''section-i''"
       and nd = "()" and contnode = "()" and lg = "[]"
       and docname = "PyStr ''chapter-i''" and labelid = "PyStr ''section-i''"
       and sectname = "PyStr ''Section I''"]
  by (simp add: Let_def logger_info_def)

section \<open>The branches that do work, on concrete inputs\<close>

text \<open>
  The registration of the script and style files, and the handler after a successful
  build: one \<open>copy_asset\<close> call per asset file, each to the directory named after the
  file's extension, with the context of the options whose names start with
  \<open>hoverxref_\<close>, the active value replacing the default.
\<close>

lemma setup_app_asset_calls:
  "concat (map asset_calls ASSETS_FILES) =
     [AddJsFile ''js/hoverxref.js'',
      AddJsFile ''js/tooltipster.bundle.min.js'',
      AddCssFile ''css/tooltipster.custom.css'',
      AddCssFile ''css/tooltipster.bundle.min.css'',
      AddCssFile ''css/tooltipster-sideTip-shadow.min.css'']"
  by code_simp

lemma copy_asset_files_success_example:
  "copy_asset_files (\<lambda>path dest context calls. calls @ [(path, dest, context)])
     ''/pkg/hoverxref/extension.py''
     \<lparr>config_values = [(''hoverxref_project'', PyNone, ''html''),
                        (''hoverxref_tooltip_maxwidth'', PyInt 450, ''env''),
                        (''project'', PyStr ''Python'', ''env'')],
      config_attrs = [(''hoverxref_project'', PyStr ''myproject''),
                      (''project'', PyStr ''docs'')],
      outdir = ''/out''\<rparr>
     (None :: unit option) []
   = [(''/pkg/hoverxref/_static/js/hoverxref.js_t'', ''/out/_static/js'',
         [(''hoverxref_project'', PyStr ''myproject''), (''hoverxref_tooltip_maxwidth'', PyInt 450)]),
      (''/pkg/hoverxref/_static/js/tooltipster.bundle.min.js'', ''/out/_static/js'',
         [(''hoverxref_project'', PyStr ''myproject''), (''hoverxref_tooltip_maxwidth'', PyInt 450)]),
      (''/pkg/hoverxref/_static/css/tooltipster.custom.css'', ''/out/_static/css'',
         [(''hoverxref_project'', PyStr ''myproject''), (''hoverxref_tooltip_maxwidth'', PyInt 450)]),
      (''/pkg/hoverxref/_static/css/tooltipster.bundle.min.css'', ''/out/_static/css'',
         [(''hoverxref_project'', PyStr ''myproject''), (''hoverxref_tooltip_maxwidth'', PyInt 450)]),
      (''/pkg/hoverxref/_static/css/tooltipster-sideTip-shadow.min.css'', ''/out/_static/css'',
         [(''hoverxref_project'', PyStr ''myproject''), (''hoverxref_tooltip_maxwidth'', PyInt 450)])]"
  by code_simp

end
